theory Spec2Isabelle
  imports Main "HOL-Library.Sublist"
begin

section \<open>types.ts and constants.ts\<close>

datatype AspectRatio = SQUARE | LANDSCAPE | PORTRAIT | STANDARD_LANDSCAPE | STANDARD_PORTRAIT

datatype ImageQuality = STANDARD | HIGH

text \<open>The string values the two enums carry at run time.\<close>

fun AspectRatio_value :: "AspectRatio \<Rightarrow> string" where
  "AspectRatio_value SQUARE = ''1:1''"
| "AspectRatio_value LANDSCAPE = ''16:9''"
| "AspectRatio_value PORTRAIT = ''9:16''"
| "AspectRatio_value STANDARD_LANDSCAPE = ''4:3''"
| "AspectRatio_value STANDARD_PORTRAIT = ''3:4''"

fun ImageQuality_value :: "ImageQuality \<Rightarrow> string" where
  "ImageQuality_value STANDARD = ''Standard''"
| "ImageQuality_value HIGH = ''High (2K)''"

definition MODEL_STANDARD :: string where
  "MODEL_STANDARD = ''gemini-2.5-flash-image''"

definition MODEL_HIGH_RES :: string where
  "MODEL_HIGH_RES = ''gemini-3-pro-image-preview''"

section \<open>The shapes exchanged with the generative capability\<close>

text \<open>
  Every field the SDK declares optional is an \<open>option\<close>: \<open>None\<close> is JavaScript's
  \<open>undefined\<close>. A part may carry text, inline data, both or neither.
\<close>

record Blob =
  mimeType :: "string option"
  data :: "string option"

record Part =
  text' :: "string option"
  inlineData :: "Blob option"

record Content =
  parts :: "Part list option"

record Candidate =
  content :: "Content option"

record GenerateContentResponse =
  candidates :: "Candidate list option"

record ImageConfig =
  aspectRatio :: AspectRatio
  imageSize :: "string option"

record GenerateContentConfig =
  imageConfig :: ImageConfig

record GenerateContentParameters =
  model :: string
  contents :: Content
  config :: GenerateContentConfig

section \<open>Thrown values\<close>

text \<open>
  A thrown value is a JavaScript error object: its \<open>name\<close>, the \<open>status\<close> the SDK
  sets on an API error (absent on a plain \<open>Error\<close>) and its \<open>message\<close>. A promise
  that rejects with \<open>e\<close> is \<open>Inl e\<close>, one that resolves with \<open>v\<close> is \<open>Inr v\<close>.
\<close>

record jsError =
  name :: string
  status :: "int option"
  message :: "string option"

definition Error :: "string \<Rightarrow> jsError" where
  "Error msg = \<lparr>name = ''Error'', status = None, message = Some msg\<rparr>"

text \<open>
  Reading a property of \<open>undefined\<close> throws a \<open>TypeError\<close>; the message is the one
  V8 produces for the property named.
\<close>

definition TypeError :: "string \<Rightarrow> jsError" where
  "TypeError prop =
     \<lparr>name = ''TypeError'', status = None,
      message = Some (''Cannot read properties of undefined (reading '' @ [CHR 0x27] @ prop
                        @ [CHR 0x27] @ '')'')\<rparr>"

text \<open>\<open>String.prototype.includes\<close>: does \<open>sub\<close> occur in \<open>s\<close> as a contiguous run.\<close>

fun str_includes :: "string \<Rightarrow> string \<Rightarrow> bool" where
  "str_includes [] sub = (sub = [])"
| "str_includes (c # s) sub = (prefix sub (c # s) \<or> str_includes s sub)"

text \<open>\<open>e.message?.includes(sub)\<close>: an absent message gives \<open>undefined\<close>, which is falsy.\<close>

definition message_includes :: "jsError \<Rightarrow> string \<Rightarrow> bool" where
  "message_includes e sub = (case message e of None \<Rightarrow> False | Some m \<Rightarrow> str_includes m sub)"

section \<open>The world: capability invocations and the console\<close>

datatype console_entry =
  Warn string
| ErrorLog string jsError

record world =
  calls :: "GenerateContentParameters list"
  console :: "console_entry list"

text \<open>
  The external capability \<open>ai.models.generateContent\<close> is a parameter of the model. It is
  told how many invocations came before, so that it may answer the same request
  differently each time.
\<close>

type_synonym capability =
  "nat \<Rightarrow> GenerateContentParameters \<Rightarrow> jsError + GenerateContentResponse"

section \<open>services/geminiService.ts\<close>

subsection \<open>makeRequest\<close>

text \<open>The argument object \<open>makeRequest\<close> passes to \<open>generateContent\<close> for a model.\<close>

definition requestParameters ::
  "string \<Rightarrow> string \<Rightarrow> string \<Rightarrow> string \<Rightarrow> string \<Rightarrow> AspectRatio \<Rightarrow> string
     \<Rightarrow> GenerateContentParameters" where
  "requestParameters image1Base64 image1Mime image2Base64 image2Mime prompt ratio mdl =
     \<lparr>model = mdl,
      contents = \<lparr>parts = Some
        [\<lparr>text' = Some (''Merge these two images into one based on this description: ''
                         @ prompt @ ''. Ensure the result is a single cohesive image.''),
          inlineData = None\<rparr>,
         \<lparr>text' = None,
          inlineData = Some \<lparr>mimeType = Some image1Mime, data = Some image1Base64\<rparr>\<rparr>,
         \<lparr>text' = None,
          inlineData = Some \<lparr>mimeType = Some image2Mime, data = Some image2Base64\<rparr>\<rparr>]\<rparr>,
      config = \<lparr>imageConfig =
        \<lparr>aspectRatio = ratio,
         imageSize = (if mdl = MODEL_HIGH_RES then Some ''2K'' else None)\<rparr>\<rparr>\<rparr>"

definition makeRequest ::
  "capability \<Rightarrow> string \<Rightarrow> string \<Rightarrow> string \<Rightarrow> string \<Rightarrow> string \<Rightarrow> AspectRatio \<Rightarrow> string
     \<Rightarrow> world \<Rightarrow> (jsError + GenerateContentResponse) \<times> world" where
  "makeRequest ai image1Base64 image1Mime image2Base64 image2Mime prompt ratio mdl w =
     (let req = requestParameters image1Base64 image1Mime image2Base64 image2Mime prompt ratio mdl
      in (ai (length (calls w)) req, w\<lparr>calls := calls w @ [req]\<rparr>))"

subsection \<open>extractImageFromResponse\<close>

text \<open>
  The loop condition \<open>part.inlineData && part.inlineData.data\<close>: the data when both
  are present and the data is truthy, that is, not the empty string.
\<close>

definition inlineImageData :: "Part \<Rightarrow> string option" where
  "inlineImageData part =
     (case inlineData part of
        None \<Rightarrow> None
      | Some b \<Rightarrow>
          (case data b of
             None \<Rightarrow> None
           | Some d \<Rightarrow> if d \<noteq> [] then Some d else None))"

text \<open>The loop over the parts of the first candidate returns at the first part that passes.\<close>

fun scanParts :: "Part list \<Rightarrow> string option" where
  "scanParts [] = None"
| "scanParts (part # rest) =
     (case inlineImageData part of
        Some d \<Rightarrow> Some d
      | None \<Rightarrow> scanParts rest)"

text \<open>\<open>response.candidates?.[0]?.content?.parts?.[0]?.text\<close>\<close>

definition leadingText :: "GenerateContentResponse \<Rightarrow> string option" where
  "leadingText response =
     (case candidates response of
        None \<Rightarrow> None
      | Some [] \<Rightarrow> None
      | Some (c # _) \<Rightarrow>
          (case content c of
             None \<Rightarrow> None
           | Some ct \<Rightarrow>
               (case parts ct of
                  None \<Rightarrow> None
                | Some [] \<Rightarrow> None
                | Some (p # _) \<Rightarrow> text' p)))"

text \<open>The two throws that end the function once no image was found.\<close>

definition textFeedback :: "GenerateContentResponse \<Rightarrow> jsError + string" where
  "textFeedback response =
     (case leadingText response of
        Some t \<Rightarrow>
          if t \<noteq> [] then Inl (Error t)
          else Inl (Error ''No image generated. The model might have refused the request.'')
      | None \<Rightarrow> Inl (Error ''No image generated. The model might have refused the request.''))"

text \<open>
  The guard \<open>response.candidates && response.candidates[0].content.parts\<close> uses plain
  property access: an empty array is truthy, so \<open>candidates[0]\<close> is \<open>undefined\<close> there and
  reading \<open>content\<close> throws; a first candidate without \<open>content\<close> throws on \<open>parts\<close>.
\<close>

definition extractImageFromResponse :: "GenerateContentResponse \<Rightarrow> jsError + string" where
  "extractImageFromResponse response =
     (case candidates response of
        None \<Rightarrow> textFeedback response
      | Some [] \<Rightarrow> Inl (TypeError ''content'')
      | Some (c # _) \<Rightarrow>
          (case content c of
             None \<Rightarrow> Inl (TypeError ''parts'')
           | Some ct \<Rightarrow>
               (case parts ct of
                  None \<Rightarrow> textFeedback response
                | Some ps \<Rightarrow>
                    (case scanParts ps of
                       Some d \<Rightarrow> Inr (''data:image/png;base64,'' @ d)
                     | None \<Rightarrow> textFeedback response))))"

subsection \<open>generateMergedImage\<close>

definition initialModel :: "ImageQuality \<Rightarrow> string" where
  "initialModel quality = (if quality = HIGH then MODEL_HIGH_RES else MODEL_STANDARD)"

definition isPermissionOrNotFoundError :: "jsError \<Rightarrow> bool" where
  "isPermissionOrNotFoundError firstError =
     (status firstError = Some 403 \<or> status firstError = Some 404
      \<or> message_includes firstError ''PERMISSION_DENIED''
      \<or> message_includes firstError ''403'')"

text \<open>\<open>await makeRequest(m)\<close> followed by \<open>extractImageFromResponse\<close> on what it resolves to.\<close>

definition requestAndExtract ::
  "capability \<Rightarrow> string \<Rightarrow> string \<Rightarrow> string \<Rightarrow> string \<Rightarrow> string \<Rightarrow> AspectRatio \<Rightarrow> string
     \<Rightarrow> world \<Rightarrow> (jsError + string) \<times> world" where
  "requestAndExtract ai image1Base64 image1Mime image2Base64 image2Mime prompt ratio mdl w =
     (case makeRequest ai image1Base64 image1Mime image2Base64 image2Mime prompt ratio mdl w of
        (Inl e, w') \<Rightarrow> (Inl e, w')
      | (Inr response, w') \<Rightarrow> (extractImageFromResponse response, w'))"

text \<open>The inner \<open>try\<close>/\<open>catch\<close>: the first attempt and, from its handler, the fallback.\<close>

definition innerTry ::
  "capability \<Rightarrow> string \<Rightarrow> string \<Rightarrow> string \<Rightarrow> string \<Rightarrow> string \<Rightarrow> AspectRatio \<Rightarrow> ImageQuality
     \<Rightarrow> world \<Rightarrow> (jsError + string) \<times> world" where
  "innerTry ai image1Base64 image1Mime image2Base64 image2Mime prompt ratio quality w =
     (let isHighRes = (quality = HIGH) in
      case requestAndExtract ai image1Base64 image1Mime image2Base64 image2Mime prompt ratio
             (initialModel quality) w of
        (Inr uri, w1) \<Rightarrow> (Inr uri, w1)
      | (Inl firstError, w1) \<Rightarrow>
          if isHighRes \<and> isPermissionOrNotFoundError firstError then
            requestAndExtract ai image1Base64 image1Mime image2Base64 image2Mime prompt ratio
              MODEL_STANDARD
              (w1\<lparr>console := console w1 @
                 [Warn (''High Res model ('' @ MODEL_HIGH_RES
                        @ '') failed with permission/access error. Falling back to Standard (''
                        @ MODEL_STANDARD @ '').'')]\<rparr>)
          else (Inl firstError, w1))"

text \<open>
  The whole function. \<open>apiKey\<close> is \<open>process.env.API_KEY\<close>; \<open>!apiKey\<close> holds when it is
  absent or the empty string. The outer handler logs the error and replaces it by the
  permission message when its status is 403 or its message names \<open>PERMISSION_DENIED\<close>.
\<close>

definition generateMergedImage ::
  "capability \<Rightarrow> string option \<Rightarrow> string \<Rightarrow> string \<Rightarrow> string \<Rightarrow> string \<Rightarrow> string \<Rightarrow> AspectRatio
     \<Rightarrow> ImageQuality \<Rightarrow> world \<Rightarrow> (jsError + string) \<times> world" where
  "generateMergedImage ai apiKey image1Base64 image1Mime image2Base64 image2Mime prompt ratio
       quality w =
     (if apiKey = None \<or> apiKey = Some [] then
        (Inl (Error ''API Key is missing. Please ensure process.env.API_KEY is set.''), w)
      else
        case innerTry ai image1Base64 image1Mime image2Base64 image2Mime prompt ratio quality w of
          (Inr uri, w1) \<Rightarrow> (Inr uri, w1)
        | (Inl error, w1) \<Rightarrow>
            (if status error = Some 403 \<or> message_includes error ''PERMISSION_DENIED'' then
               Inl (Error ''Permission denied. The API key does not have access to the generative AI models. Please check that the API key is valid and the API is enabled in your Google Cloud project.'')
             else Inl error,
             w1\<lparr>console := console w1 @ [ErrorLog ''Gemini API Error:'' error]\<rparr>))"

section \<open>Scripted capabilities and sample values for concrete runs\<close>

text \<open>A capability that answers its invocations from a list, in order.\<close>

fun scripted :: "(jsError + GenerateContentResponse) list \<Rightarrow> capability" where
  "scripted [] n req = Inl (Error ''no scripted answer left'')"
| "scripted (a # as) 0 req = a"
| "scripted (a # as) (Suc n) req = scripted as n req"

definition emptyWorld :: world where
  "emptyWorld = \<lparr>calls = [], console = []\<rparr>"

definition apiError :: "int \<Rightarrow> string \<Rightarrow> jsError" where
  "apiError st msg = \<lparr>name = ''ApiError'', status = Some st, message = Some msg\<rparr>"

definition textPart :: "string \<Rightarrow> Part" where
  "textPart t = \<lparr>text' = Some t, inlineData = None\<rparr>"

definition inlinePart :: "string \<Rightarrow> string option \<Rightarrow> Part" where
  "inlinePart mime d = \<lparr>text' = None, inlineData = Some \<lparr>mimeType = Some mime, data = d\<rparr>\<rparr>"

definition responseOf :: "Part list \<Rightarrow> GenerateContentResponse" where
  "responseOf ps = \<lparr>candidates = Some [\<lparr>content = Some \<lparr>parts = Some ps\<rparr>\<rparr>]\<rparr>"

text \<open>The three fixed messages of \<open>generateMergedImage\<close>, for the statements below.\<close>

abbreviation missingKeyMessage :: string where
  "missingKeyMessage \<equiv> ''API Key is missing. Please ensure process.env.API_KEY is set.''"

abbreviation noImageMessage :: string where
  "noImageMessage \<equiv> ''No image generated. The model might have refused the request.''"

abbreviation permissionDeniedMessage :: string where
  "permissionDeniedMessage \<equiv> ''Permission denied. The API key does not have access to the generative AI models. Please check that the API key is valid and the API is enabled in your Google Cloud project.''"

section \<open>Facts about the building blocks\<close>

subsection \<open>Requests and the trace of invocations\<close>

lemma models_distinct: "MODEL_STANDARD \<noteq> MODEL_HIGH_RES"
  by (simp add: MODEL_STANDARD_def MODEL_HIGH_RES_def)

lemma requestParameters_parts:
  "parts (contents (requestParameters a1 m1 a2 m2 p r mdl)) =
     Some [\<lparr>text' = Some (''Merge these two images into one based on this description: ''
                           @ p @ ''. Ensure the result is a single cohesive image.''),
            inlineData = None\<rparr>,
           \<lparr>text' = None, inlineData = Some \<lparr>mimeType = Some m1, data = Some a1\<rparr>\<rparr>,
           \<lparr>text' = None, inlineData = Some \<lparr>mimeType = Some m2, data = Some a2\<rparr>\<rparr>]"
  by (simp add: requestParameters_def)

lemma requestParameters_aspectRatio:
  "aspectRatio (imageConfig (config (requestParameters a1 m1 a2 m2 p r mdl))) = r"
  by (simp add: requestParameters_def)

lemma requestAndExtract_pair:
  "requestAndExtract ai a1 m1 a2 m2 p r mdl w =
     ((case ai (length (calls w)) (requestParameters a1 m1 a2 m2 p r mdl) of
        Inl e \<Rightarrow> Inl e
      | Inr response \<Rightarrow> extractImageFromResponse response),
      w\<lparr>calls := calls w @ [requestParameters a1 m1 a2 m2 p r mdl]\<rparr>)"
  by (simp add: requestAndExtract_def makeRequest_def Let_def split: sum.splits)

lemma innerTry_calls:
  "calls (snd (innerTry ai a1 m1 a2 m2 p r q w)) =
     calls w @ requestParameters a1 m1 a2 m2 p r (initialModel q) #
       (case fst (requestAndExtract ai a1 m1 a2 m2 p r (initialModel q) w) of
          Inl firstError \<Rightarrow>
            if q = HIGH \<and> isPermissionOrNotFoundError firstError
            then [requestParameters a1 m1 a2 m2 p r MODEL_STANDARD] else []
        | Inr _ \<Rightarrow> [])"
  by (simp add: innerTry_def requestAndExtract_pair Let_def split: sum.splits)

lemma innerTry_no_fallback:
  assumes "fst (requestAndExtract ai a1 m1 a2 m2 p r (initialModel q) w) = Inl e"
    and "\<not> (q = HIGH \<and> isPermissionOrNotFoundError e)"
  shows "innerTry ai a1 m1 a2 m2 p r q w =
           (Inl e, w\<lparr>calls := calls w @ [requestParameters a1 m1 a2 m2 p r (initialModel q)]\<rparr>)"
  using assms by (auto simp add: innerTry_def requestAndExtract_pair Let_def split: sum.splits)

lemma innerTry_fallback:
  assumes "fst (requestAndExtract ai a1 m1 a2 m2 p r MODEL_HIGH_RES w) = Inl e"
    and "isPermissionOrNotFoundError e"
  shows "fst (innerTry ai a1 m1 a2 m2 p r HIGH w) =
           (case ai (Suc (length (calls w))) (requestParameters a1 m1 a2 m2 p r MODEL_STANDARD) of
              Inl e2 \<Rightarrow> Inl e2
            | Inr response \<Rightarrow> extractImageFromResponse response)"
  using assms
  by (auto simp add: innerTry_def initialModel_def requestAndExtract_pair Let_def split: sum.splits)

lemma generateMergedImage_with_key:
  assumes "k \<noteq> []"
  shows "generateMergedImage ai (Some k) a1 m1 a2 m2 p r q w =
     (case innerTry ai a1 m1 a2 m2 p r q w of
          (Inr uri, w1) \<Rightarrow> (Inr uri, w1)
        | (Inl error, w1) \<Rightarrow>
            (if status error = Some 403 \<or> message_includes error ''PERMISSION_DENIED'' then
               Inl (Error permissionDeniedMessage)
             else Inl error,
             w1\<lparr>console := console w1 @ [ErrorLog ''Gemini API Error:'' error]\<rparr>))"
  using assms by (simp add: generateMergedImage_def)

lemma generateMergedImage_calls_innerTry:
  assumes "k \<noteq> []"
  shows "calls (snd (generateMergedImage ai (Some k) a1 m1 a2 m2 p r q w)) =
         calls (snd (innerTry ai a1 m1 a2 m2 p r q w))"
  by (simp add: generateMergedImage_with_key [OF assms] split: prod.splits sum.splits)

lemma generateMergedImage_calls:
  "calls (snd (generateMergedImage ai k a1 m1 a2 m2 p r q w)) =
     calls w @
     (if k = None \<or> k = Some [] then []
      else requestParameters a1 m1 a2 m2 p r (initialModel q) #
       (case fst (requestAndExtract ai a1 m1 a2 m2 p r (initialModel q) w) of
          Inl firstError \<Rightarrow>
            if q = HIGH \<and> isPermissionOrNotFoundError firstError
            then [requestParameters a1 m1 a2 m2 p r MODEL_STANDARD] else []
        | Inr _ \<Rightarrow> []))"
proof (cases "k = None \<or> k = Some []")
  case True
  then show ?thesis by (auto simp add: generateMergedImage_def)
next
  case False
  then obtain key where key: "k = Some key" "key \<noteq> []" by auto
  show ?thesis
    using False unfolding key(1) generateMergedImage_calls_innerTry [OF key(2)] innerTry_calls
    by simp
qed

lemma issued_requests:
  "req \<in> set (drop (length (calls w))
                 (calls (snd (generateMergedImage ai k a1 m1 a2 m2 p r q w)))) \<Longrightarrow>
   req = requestParameters a1 m1 a2 m2 p r (initialModel q)
   \<or> req = requestParameters a1 m1 a2 m2 p r MODEL_STANDARD"
  by (auto simp add: generateMergedImage_calls split: if_splits sum.splits)

lemma generateMergedImage_no_fallback:
  assumes "k \<noteq> []"
    and "fst (requestAndExtract ai a1 m1 a2 m2 p r (initialModel q) w) = Inl e"
    and "\<not> (q = HIGH \<and> isPermissionOrNotFoundError e)"
  shows "generateMergedImage ai (Some k) a1 m1 a2 m2 p r q w =
           (Inl (if status e = Some 403 \<or> message_includes e ''PERMISSION_DENIED''
                 then Error permissionDeniedMessage else e),
            w\<lparr>calls := calls w @ [requestParameters a1 m1 a2 m2 p r (initialModel q)],
              console := console w @ [ErrorLog ''Gemini API Error:'' e]\<rparr>)"
  by (simp add: generateMergedImage_with_key [OF assms(1)] innerTry_no_fallback [OF assms(2,3)])

lemma generateMergedImage_terminal_error:
  assumes "k \<noteq> []"
    and "fst (innerTry ai a1 m1 a2 m2 p r q w) = Inl e"
  shows "fst (generateMergedImage ai (Some k) a1 m1 a2 m2 p r q w) =
           Inl (if status e = Some 403 \<or> message_includes e ''PERMISSION_DENIED''
                then Error permissionDeniedMessage else e)"
  using assms(2)
  by (cases "innerTry ai a1 m1 a2 m2 p r q w")
     (simp add: generateMergedImage_with_key [OF assms(1)])

subsection \<open>The scan and the errors of the extractor\<close>

lemma scanParts_append:
  "scanParts (ps @ qs) = (case scanParts ps of Some d \<Rightarrow> Some d | None \<Rightarrow> scanParts qs)"
  by (induction ps) (auto split: option.splits)

lemma scanParts_None_iff:
  "scanParts ps = None \<longleftrightarrow> (\<forall>part \<in> set ps. inlineImageData part = None)"
  by (induction ps) (auto split: option.splits)

lemma scanParts_Some_source:
  "scanParts ps = Some d \<Longrightarrow> \<exists>part \<in> set ps. inlineImageData part = Some d"
  by (induction ps) (auto split: option.splits)

lemma inlineImageData_Some:
  "inlineImageData part = Some d \<longleftrightarrow>
     d \<noteq> [] \<and> (\<exists>b. inlineData part = Some b \<and> data b = Some d)"
  by (auto simp add: inlineImageData_def split: option.splits)

lemma inlineImageData_empty:
  "inlineData part = Some b \<Longrightarrow> data b = None \<or> data b = Some [] \<Longrightarrow>
     inlineImageData part = None"
  by (auto simp add: inlineImageData_def)

lemma extract_first_candidate:
  assumes "candidates response = Some (c # cs)" "content c = Some ct" "parts ct = Some ps"
  shows "extractImageFromResponse response =
           (case scanParts ps of
              Some d \<Rightarrow> Inr (''data:image/png;base64,'' @ d)
            | None \<Rightarrow> textFeedback response)"
  using assms by (simp add: extractImageFromResponse_def)

lemma textFeedback_cases:
  "textFeedback response = Inl (Error noImageMessage)
   \<or> (\<exists>t. t \<noteq> [] \<and> leadingText response = Some t \<and> textFeedback response = Inl (Error t))"
  by (auto simp add: textFeedback_def split: option.splits)

lemma textFeedback_status: "textFeedback response = Inl e \<Longrightarrow> status e = None"
  by (auto simp add: textFeedback_def Error_def split: option.splits if_splits)

lemma extract_error_status:
  "extractImageFromResponse response = Inl e \<Longrightarrow> status e = None"
  by (auto simp add: extractImageFromResponse_def TypeError_def
      split: option.splits list.splits dest: textFeedback_status)

lemma extract_error_classified:
  "extractImageFromResponse response = Inl e \<Longrightarrow>
     isPermissionOrNotFoundError e =
       (message_includes e ''PERMISSION_DENIED'' \<or> message_includes e ''403'')"
  by (simp add: isPermissionOrNotFoundError_def extract_error_status)

subsection \<open>Concrete runs\<close>

lemma run_403_then_image:
  "calls (snd (generateMergedImage
       (scripted [Inl (apiError 403 ''Forbidden''), Inr (responseOf [inlinePart ''image/png'' (Some ''BBBB'')])])
       (Some ''key'') ''AAAA'' ''image/jpeg'' ''CCCC'' ''image/webp'' ''on a beach'' LANDSCAPE HIGH
       emptyWorld)) =
   [requestParameters ''AAAA'' ''image/jpeg'' ''CCCC'' ''image/webp'' ''on a beach'' LANDSCAPE MODEL_HIGH_RES,
    requestParameters ''AAAA'' ''image/jpeg'' ''CCCC'' ''image/webp'' ''on a beach'' LANDSCAPE MODEL_STANDARD]"
  by (simp add: generateMergedImage_calls emptyWorld_def requestAndExtract_pair initialModel_def
       apiError_def isPermissionOrNotFoundError_def)

lemma missing_key_not_classified:
  "\<not> isPermissionOrNotFoundError (Error missingKeyMessage)"
  by (simp add: isPermissionOrNotFoundError_def message_includes_def Error_def)

section \<open>Tier selection and request construction\<close>

text \<open>
  Claim C5. For either quality tier, the request built for the tier's initial model names
  the high-resolution model with size hint \<open>2K\<close> when the tier is \<open>HIGH\<close>, and the
  standard model with no size hint when it is \<open>STANDARD\<close>: a size hint is present
  exactly on the high tier.
\<close>

theorem size_hint_iff_high_tier:
  "model (requestParameters a1 m1 a2 m2 p r (initialModel q)) =
     (case q of HIGH \<Rightarrow> MODEL_HIGH_RES | STANDARD \<Rightarrow> MODEL_STANDARD)
   \<and> imageSize (imageConfig (config (requestParameters a1 m1 a2 m2 p r (initialModel q)))) =
     (case q of HIGH \<Rightarrow> Some ''2K'' | STANDARD \<Rightarrow> None)
   \<and> ((imageSize (imageConfig (config (requestParameters a1 m1 a2 m2 p r (initialModel q))))
         \<noteq> None) = (q = HIGH))
   \<and> MODEL_HIGH_RES = ''gemini-3-pro-image-preview''
   \<and> MODEL_STANDARD = ''gemini-2.5-flash-image''"
  by (cases q) (simp_all add: requestParameters_def initialModel_def models_distinct,
      simp_all add: MODEL_STANDARD_def MODEL_HIGH_RES_def)

text \<open>
  Claim C6. Every request that a call of \<open>generateMergedImage\<close> issues, whatever the
  images, the instruction, the aspect ratio, the tier and the capability's answers, has
  exactly three parts in this order: the instruction in its fixed framing with the user's
  text spliced in unchanged, image A's inline data, image B's inline data; and its
  configuration carries the aspect ratio given.
\<close>

theorem request_parts_in_fixed_order:
  "\<forall>req \<in> set (drop (length (calls w))
                  (calls (snd (generateMergedImage ai k a1 m1 a2 m2 p r q w)))).
     parts (contents req) =
       Some [\<lparr>text' = Some (''Merge these two images into one based on this description: ''
                             @ p @ ''. Ensure the result is a single cohesive image.''),
              inlineData = None\<rparr>,
             \<lparr>text' = None, inlineData = Some \<lparr>mimeType = Some m1, data = Some a1\<rparr>\<rparr>,
             \<lparr>text' = None, inlineData = Some \<lparr>mimeType = Some m2, data = Some a2\<rparr>\<rparr>]
     \<and> aspectRatio (imageConfig (config req)) = r"
proof
  fix req
  assume "req \<in> set (drop (length (calls w))
                 (calls (snd (generateMergedImage ai k a1 m1 a2 m2 p r q w))))"
  then obtain mdl where "req = requestParameters a1 m1 a2 m2 p r mdl"
    using issued_requests by blast
  then show "parts (contents req) =
       Some [\<lparr>text' = Some (''Merge these two images into one based on this description: ''
                             @ p @ ''. Ensure the result is a single cohesive image.''),
              inlineData = None\<rparr>,
             \<lparr>text' = None, inlineData = Some \<lparr>mimeType = Some m1, data = Some a1\<rparr>\<rparr>,
             \<lparr>text' = None, inlineData = Some \<lparr>mimeType = Some m2, data = Some a2\<rparr>\<rparr>]
     \<and> aspectRatio (imageConfig (config req)) = r"
    by (simp only: requestParameters_parts requestParameters_aspectRatio)
qed

text \<open>
  A high-tier run whose first invocation is refused with status 403 issues two requests;
  both have the three parts in order and the aspect ratio.
\<close>

theorem request_parts_in_fixed_order_witness:
  "map (\<lambda>req. (parts (contents req), aspectRatio (imageConfig (config req))))
     (calls (snd (generateMergedImage
       (scripted [Inl (apiError 403 ''Forbidden''), Inr (responseOf [inlinePart ''image/png'' (Some ''BBBB'')])])
       (Some ''key'') ''AAAA'' ''image/jpeg'' ''CCCC'' ''image/webp'' ''on a beach'' LANDSCAPE HIGH
       emptyWorld))) =
   replicate 2
     (Some [textPart ''Merge these two images into one based on this description: on a beach. Ensure the result is a single cohesive image.'',
            inlinePart ''image/jpeg'' (Some ''AAAA''),
            inlinePart ''image/webp'' (Some ''CCCC'')], LANDSCAPE)"
proof -
  have run: "calls (snd (generateMergedImage
       (scripted [Inl (apiError 403 ''Forbidden''), Inr (responseOf [inlinePart ''image/png'' (Some ''BBBB'')])])
       (Some ''key'') ''AAAA'' ''image/jpeg'' ''CCCC'' ''image/webp'' ''on a beach'' LANDSCAPE HIGH
       emptyWorld)) =
   [requestParameters ''AAAA'' ''image/jpeg'' ''CCCC'' ''image/webp'' ''on a beach'' LANDSCAPE MODEL_HIGH_RES,
    requestParameters ''AAAA'' ''image/jpeg'' ''CCCC'' ''image/webp'' ''on a beach'' LANDSCAPE MODEL_STANDARD]"
    by (rule run_403_then_image)
  have start: "length (calls emptyWorld) = 0"
    by (simp add: emptyWorld_def)
  show ?thesis
    using request_parts_in_fixed_order
     [of emptyWorld "scripted [Inl (apiError 403 ''Forbidden''), Inr (responseOf [inlinePart ''image/png'' (Some ''BBBB'')])]"
         "Some ''key''" "''AAAA''" "''image/jpeg''" "''CCCC''" "''image/webp''" "''on a beach''" LANDSCAPE HIGH]
    unfolding run start
    by (simp add: textPart_def inlinePart_def numeral_2_eq_2)
qed

section \<open>The response extractor\<close>

text \<open>
  Claim C3 as stated fails on two inputs. With two parts that both carry inline data, the
  extractor returns the data of the first, so the data of the later part is not what comes
  back. With a single inline-data part whose data is the empty string, the extractor finds no
  image and fails with the no-image message.
\<close>

theorem image_data_of_later_part_not_returned:
  "extractImageFromResponse
     (responseOf [inlinePart ''image/jpeg'' (Some ''AAAA''), inlinePart ''image/jpeg'' (Some ''BBBB'')])
     = Inr ''data:image/png;base64,AAAA''
   \<and> extractImageFromResponse
     (responseOf [inlinePart ''image/jpeg'' (Some ''AAAA''), inlinePart ''image/jpeg'' (Some ''BBBB'')])
     \<noteq> Inr (''data:image/png;base64,'' @ ''BBBB'')
   \<and> extractImageFromResponse (responseOf [inlinePart ''image/jpeg'' (Some [])])
     = Inl (Error noImageMessage)
   \<and> extractImageFromResponse (responseOf [inlinePart ''image/jpeg'' (Some [])])
     \<noteq> Inr (''data:image/png;base64,'' @ [])"
  by (simp add: extractImageFromResponse_def responseOf_def inlinePart_def inlineImageData_def
      textFeedback_def leadingText_def)

text \<open>
  Claim C3, amended. When the first candidate has, at any position, a part whose inline
  data is present and not empty, and no earlier part has such data, the extractor succeeds
  with \<open>data:image/png;base64,\<close> followed by exactly that data. The MIME type the part
  reports plays no role: the tag is always PNG.
\<close>

theorem first_inline_image_returned_as_png:
  assumes "candidates response = Some (c # cs)"
    and "content c = Some ct"
    and "parts ct = Some (before @ part # after)"
    and "inlineData part = Some b"
    and "data b = Some d"
    and "d \<noteq> []"
    and "\<forall>earlier \<in> set before. inlineImageData earlier = None"
  shows "extractImageFromResponse response = Inr (''data:image/png;base64,'' @ d)"
proof -
  have "scanParts before = None"
    using assms(7) by (simp add: scanParts_None_iff)
  moreover have "inlineImageData part = Some d"
    using assms(4-6) by (simp add: inlineImageData_Some)
  ultimately have "scanParts (before @ part # after) = Some d"
    by (simp add: scanParts_append)
  then show ?thesis
    using extract_first_candidate [OF assms(1-3)] by simp
qed

text \<open>
  A JPEG image in second position, after a text part and before a WebP image.
\<close>

theorem first_inline_image_returned_as_png_witness:
  "extractImageFromResponse
     (responseOf [textPart ''Here is your image.'', inlinePart ''image/jpeg'' (Some ''AAAA''),
                  inlinePart ''image/webp'' (Some ''BBBB'')])
     = Inr ''data:image/png;base64,AAAA''"
  using first_inline_image_returned_as_png
      [of "responseOf [textPart ''Here is your image.'', inlinePart ''image/jpeg'' (Some ''AAAA''),
                  inlinePart ''image/webp'' (Some ''BBBB'')]"
          "\<lparr>content = Some \<lparr>parts = Some [textPart ''Here is your image.'', inlinePart ''image/jpeg'' (Some ''AAAA''),
                  inlinePart ''image/webp'' (Some ''BBBB'')]\<rparr>\<rparr>"
          "[]"
          "\<lparr>parts = Some [textPart ''Here is your image.'', inlinePart ''image/jpeg'' (Some ''AAAA''),
                  inlinePart ''image/webp'' (Some ''BBBB'')]\<rparr>"
          "[textPart ''Here is your image.'']" "inlinePart ''image/jpeg'' (Some ''AAAA'')"
          "[inlinePart ''image/webp'' (Some ''BBBB'')]"
          "\<lparr>mimeType = Some ''image/jpeg'', data = Some ''AAAA''\<rparr>" "''AAAA''"]
  by (simp add: responseOf_def inlinePart_def textPart_def inlineImageData_def)

text \<open>
  Claim C4. With the \<open>candidates\<close> field absent the extractor fails with the fixed
  no-image message. With \<open>candidates\<close> an empty list it does not: the guard reads
  \<open>candidates[0].content\<close> by plain property access and a \<open>TypeError\<close> is thrown,
  which is also what the caller of \<open>generateMergedImage\<close> receives.
\<close>

theorem no_candidates_absent_vs_empty:
  "extractImageFromResponse \<lparr>candidates = None\<rparr> = Inl (Error noImageMessage)
   \<and> extractImageFromResponse \<lparr>candidates = Some []\<rparr> = Inl (TypeError ''content'')
   \<and> TypeError ''content'' \<noteq> Error noImageMessage
   \<and> name (TypeError ''content'') = ''TypeError''
   \<and> fst (generateMergedImage (scripted [Inr \<lparr>candidates = Some []\<rparr>]) (Some ''key'')
            ''AAAA'' ''image/jpeg'' ''CCCC'' ''image/webp'' ''on a beach'' LANDSCAPE STANDARD
            emptyWorld) = Inl (TypeError ''content'')"
  by (simp add: extractImageFromResponse_def textFeedback_def leadingText_def TypeError_def
      Error_def generateMergedImage_def innerTry_def requestAndExtract_pair emptyWorld_def
      initialModel_def isPermissionOrNotFoundError_def message_includes_def Let_def)

text \<open>
  Claim C10. An inline-data part whose \<open>data\<close> is absent or the empty string is passed
  over by the scan: the extractor's result is the one the scan of the other parts gives, and
  when those hold no image either it is the refusal text of the first part or the no-image
  message. Any success therefore carries the non-empty data of some other part.
\<close>

theorem inline_part_without_data_is_skipped:
  assumes "candidates response = Some (c # cs)"
    and "content c = Some ct"
    and "parts ct = Some (before @ part # after)"
    and "inlineData part = Some b"
    and "data b = None \<or> data b = Some []"
  shows "extractImageFromResponse response =
           (case scanParts (before @ after) of
              Some d \<Rightarrow> Inr (''data:image/png;base64,'' @ d)
            | None \<Rightarrow>
                (case leadingText response of
                   Some t \<Rightarrow> if t \<noteq> [] then Inl (Error t) else Inl (Error noImageMessage)
                 | None \<Rightarrow> Inl (Error noImageMessage)))
         \<and> (\<forall>uri. extractImageFromResponse response = Inr uri \<longrightarrow>
               (\<exists>other \<in> set (before @ after). \<exists>b' d. inlineData other = Some b'
                  \<and> data b' = Some d \<and> d \<noteq> [] \<and> uri = ''data:image/png;base64,'' @ d))"
proof -
  have skip: "scanParts (before @ part # after) = scanParts (before @ after)"
    using inlineImageData_empty [OF assms(4,5)]
    by (simp add: scanParts_append split: option.splits)
  have ex: "extractImageFromResponse response =
           (case scanParts (before @ after) of
              Some d \<Rightarrow> Inr (''data:image/png;base64,'' @ d)
            | None \<Rightarrow> textFeedback response)"
    using extract_first_candidate [OF assms(1-3)] skip by simp
  have first: "extractImageFromResponse response =
           (case scanParts (before @ after) of
              Some d \<Rightarrow> Inr (''data:image/png;base64,'' @ d)
            | None \<Rightarrow>
                (case leadingText response of
                   Some t \<Rightarrow> if t \<noteq> [] then Inl (Error t) else Inl (Error noImageMessage)
                 | None \<Rightarrow> Inl (Error noImageMessage)))"
    unfolding ex by (simp add: textFeedback_def split: option.splits)
  have second: "\<exists>other \<in> set (before @ after). \<exists>b' d. inlineData other = Some b'
                  \<and> data b' = Some d \<and> d \<noteq> [] \<and> uri = ''data:image/png;base64,'' @ d"
    if "extractImageFromResponse response = Inr uri" for uri
  proof (cases "scanParts (before @ after)")
    case None
    then have "extractImageFromResponse response = textFeedback response"
      using ex by simp
    then show ?thesis
      using that textFeedback_cases [of response] by auto
  next
    case (Some d)
    then have uri: "uri = ''data:image/png;base64,'' @ d"
      using ex that by simp
    from Some obtain other where "other \<in> set (before @ after)" "inlineImageData other = Some d"
      using scanParts_Some_source by blast
    then show ?thesis
      using uri by (auto simp add: inlineImageData_Some)
  qed
  show ?thesis
    using first second by blast
qed

text \<open>
  An empty-data part after a refusal text, and a data-less part before a real image.
\<close>

theorem inline_part_without_data_is_skipped_witness:
  "extractImageFromResponse
     (responseOf [textPart ''I cannot merge these.'', inlinePart ''image/png'' (Some [])])
     = Inl (Error ''I cannot merge these.'')
   \<and> extractImageFromResponse
     (responseOf [inlinePart ''image/png'' None, inlinePart ''image/png'' (Some ''AAAA'')])
     = Inr ''data:image/png;base64,AAAA''"
proof -
  have "extractImageFromResponse
     (responseOf [textPart ''I cannot merge these.'', inlinePart ''image/png'' (Some [])]) =
        (case scanParts ([textPart ''I cannot merge these.''] @ []) of
              Some d \<Rightarrow> Inr (''data:image/png;base64,'' @ d)
            | None \<Rightarrow>
                (case leadingText (responseOf [textPart ''I cannot merge these.'',
                                               inlinePart ''image/png'' (Some [])]) of
                   Some t \<Rightarrow> if t \<noteq> [] then Inl (Error t) else Inl (Error noImageMessage)
                 | None \<Rightarrow> Inl (Error noImageMessage)))"
    by (rule inline_part_without_data_is_skipped [where cs = "[]"
          and c = "\<lparr>content = Some \<lparr>parts = Some [textPart ''I cannot merge these.'',
                                                    inlinePart ''image/png'' (Some [])]\<rparr>\<rparr>"
          and ct = "\<lparr>parts = Some [textPart ''I cannot merge these.'',
                                    inlinePart ''image/png'' (Some [])]\<rparr>"
          and part = "inlinePart ''image/png'' (Some [])" and after = "[]"
          and b = "\<lparr>mimeType = Some ''image/png'', data = Some []\<rparr>", THEN conjunct1])
       (simp_all add: responseOf_def inlinePart_def)
  then have a: "extractImageFromResponse
     (responseOf [textPart ''I cannot merge these.'', inlinePart ''image/png'' (Some [])])
     = Inl (Error ''I cannot merge these.'')"
    by (simp add: responseOf_def textPart_def leadingText_def inlineImageData_def)
  have "extractImageFromResponse
     (responseOf [inlinePart ''image/png'' None, inlinePart ''image/png'' (Some ''AAAA'')]) =
        (case scanParts ([] @ [inlinePart ''image/png'' (Some ''AAAA'')]) of
              Some d \<Rightarrow> Inr (''data:image/png;base64,'' @ d)
            | None \<Rightarrow>
                (case leadingText (responseOf [inlinePart ''image/png'' None,
                                               inlinePart ''image/png'' (Some ''AAAA'')]) of
                   Some t \<Rightarrow> if t \<noteq> [] then Inl (Error t) else Inl (Error noImageMessage)
                 | None \<Rightarrow> Inl (Error noImageMessage)))"
    by (rule inline_part_without_data_is_skipped [where cs = "[]"
          and c = "\<lparr>content = Some \<lparr>parts = Some [inlinePart ''image/png'' None,
                                                    inlinePart ''image/png'' (Some ''AAAA'')]\<rparr>\<rparr>"
          and ct = "\<lparr>parts = Some [inlinePart ''image/png'' None,
                                    inlinePart ''image/png'' (Some ''AAAA'')]\<rparr>"
          and part = "inlinePart ''image/png'' None" and before = "[]"
          and b = "\<lparr>mimeType = Some ''image/png'', data = None\<rparr>", THEN conjunct1])
       (simp_all add: responseOf_def inlinePart_def)
  then have b: "extractImageFromResponse
     (responseOf [inlinePart ''image/png'' None, inlinePart ''image/png'' (Some ''AAAA'')])
     = Inr ''data:image/png;base64,AAAA''"
    by (simp add: inlinePart_def inlineImageData_def)
  show ?thesis using a b by simp
qed

section \<open>The credential check\<close>

text \<open>
  Claim C7. With the API key absent (or empty), the call fails with the missing-key error
  and leaves the world as it found it: no request is built, the capability is not invoked
  and nothing is logged. The error is not one the fallback classifies, its message differs
  from the no-image and the permission messages, and it is the only outcome without an
  invocation: with a key present at least one request is issued.
\<close>

theorem missing_credential_fails_before_any_request:
  "generateMergedImage ai None a1 m1 a2 m2 p r q w = (Inl (Error missingKeyMessage), w)
   \<and> generateMergedImage ai (Some []) a1 m1 a2 m2 p r q w = (Inl (Error missingKeyMessage), w)
   \<and> \<not> isPermissionOrNotFoundError (Error missingKeyMessage)
   \<and> Error missingKeyMessage \<noteq> Error noImageMessage
   \<and> Error missingKeyMessage \<noteq> Error permissionDeniedMessage
   \<and> (\<forall>key. key \<noteq> [] \<longrightarrow>
         calls (snd (generateMergedImage ai (Some key) a1 m1 a2 m2 p r q w)) \<noteq> calls w)"
proof -
  have "generateMergedImage ai None a1 m1 a2 m2 p r q w = (Inl (Error missingKeyMessage), w)"
    by (simp add: generateMergedImage_def)
  moreover have "generateMergedImage ai (Some []) a1 m1 a2 m2 p r q w =
      (Inl (Error missingKeyMessage), w)"
    by (simp add: generateMergedImage_def)
  moreover have "Error missingKeyMessage \<noteq> Error noImageMessage"
    by (simp add: Error_def)
  moreover have "Error missingKeyMessage \<noteq> Error permissionDeniedMessage"
    by (simp add: Error_def)
  moreover have "\<forall>key. key \<noteq> [] \<longrightarrow>
         calls (snd (generateMergedImage ai (Some key) a1 m1 a2 m2 p r q w)) \<noteq> calls w"
    by (simp add: generateMergedImage_calls)
  ultimately show ?thesis
    using missing_key_not_classified by blast
qed

text \<open>
  The same inputs with and without a key.
\<close>

theorem missing_credential_fails_before_any_request_witness:
  "generateMergedImage (scripted [Inr (responseOf [inlinePart ''image/png'' (Some ''AAAA'')])])
       None ''AAAA'' ''image/jpeg'' ''CCCC'' ''image/webp'' ''on a beach'' LANDSCAPE HIGH emptyWorld
     = (Inl (Error ''API Key is missing. Please ensure process.env.API_KEY is set.''), emptyWorld)
   \<and> ''key'' \<noteq> []
   \<and> calls (snd (generateMergedImage
        (scripted [Inr (responseOf [inlinePart ''image/png'' (Some ''AAAA'')])])
        (Some ''key'') ''AAAA'' ''image/jpeg'' ''CCCC'' ''image/webp'' ''on a beach'' LANDSCAPE HIGH
        emptyWorld)) \<noteq> calls emptyWorld"
  using missing_credential_fails_before_any_request
     [of "scripted [Inr (responseOf [inlinePart ''image/png'' (Some ''AAAA'')])]"
         "''AAAA''" "''image/jpeg''" "''CCCC''" "''image/webp''" "''on a beach''" LANDSCAPE HIGH
         emptyWorld]
  by simp

section \<open>The fallback\<close>

text \<open>
  Claim C1 as stated fails. On the high tier the first invocation succeeds, so there is no
  invocation-level error; its response carries the text \<open>Error 403\<close>, extraction throws
  an error with that message inside the same \<open>try\<close>, and the handler falls back: a second
  request goes to the standard model.
\<close>

theorem fallback_after_extraction_failure:
  "scripted [Inr (responseOf [textPart ''Error 403'']),
             Inr (responseOf [inlinePart ''image/png'' (Some ''BBBB'')])] 0
     (requestParameters ''AAAA'' ''image/jpeg'' ''CCCC'' ''image/webp'' ''on a beach'' LANDSCAPE
        MODEL_HIGH_RES)
     = Inr (responseOf [textPart ''Error 403''])
   \<and> calls (snd (generateMergedImage
        (scripted [Inr (responseOf [textPart ''Error 403'']),
                   Inr (responseOf [inlinePart ''image/png'' (Some ''BBBB'')])])
        (Some ''key'') ''AAAA'' ''image/jpeg'' ''CCCC'' ''image/webp'' ''on a beach'' LANDSCAPE HIGH
        emptyWorld))
     = [requestParameters ''AAAA'' ''image/jpeg'' ''CCCC'' ''image/webp'' ''on a beach'' LANDSCAPE
          MODEL_HIGH_RES,
        requestParameters ''AAAA'' ''image/jpeg'' ''CCCC'' ''image/webp'' ''on a beach'' LANDSCAPE
          MODEL_STANDARD]"
  by (simp add: generateMergedImage_calls emptyWorld_def requestAndExtract_pair initialModel_def
       isPermissionOrNotFoundError_def message_includes_def extractImageFromResponse_def
       responseOf_def textPart_def inlineImageData_def textFeedback_def leadingText_def Error_def)

text \<open>
  Claim C1, amended. Let the first attempt's outcome be the invocation's error, or else what
  extraction makes of its response. With a key present the call issues the request for the
  tier's initial model, and a second request exactly when the tier is \<open>HIGH\<close> and the
  first attempt ended in an error that \<open>isPermissionOrNotFoundError\<close> accepts (status
  403 or 404, or a message containing \<open>PERMISSION_DENIED\<close> or \<open>403\<close>). That second
  request is the only further one, names the standard model and has no size hint. In every
  other failing case the first error goes to the outer handler with no second request, and
  the call ends in it (or in the permission message the handler substitutes).
\<close>

theorem fallback_iff_high_and_first_error_access_denied:
  assumes "firstOutcome =
             (case ai (length (calls w))
                     (requestParameters a1 m1 a2 m2 p r (initialModel q)) of
                Inl e \<Rightarrow> Inl e
              | Inr response \<Rightarrow> extractImageFromResponse response)"
  shows "calls (snd (generateMergedImage ai k a1 m1 a2 m2 p r q w)) =
           calls w @
           (if k = None \<or> k = Some [] then []
            else requestParameters a1 m1 a2 m2 p r (initialModel q) #
              (case firstOutcome of
                 Inl firstError \<Rightarrow>
                   if q = HIGH \<and> isPermissionOrNotFoundError firstError
                   then [requestParameters a1 m1 a2 m2 p r MODEL_STANDARD] else []
               | Inr uri \<Rightarrow> []))
         \<and> model (requestParameters a1 m1 a2 m2 p r MODEL_STANDARD) = MODEL_STANDARD
         \<and> imageSize (imageConfig (config (requestParameters a1 m1 a2 m2 p r MODEL_STANDARD)))
             = None
         \<and> (\<forall>firstError.
               isPermissionOrNotFoundError firstError =
                 (status firstError = Some 403 \<or> status firstError = Some 404
                  \<or> message_includes firstError ''PERMISSION_DENIED''
                  \<or> message_includes firstError ''403''))
         \<and> (\<forall>key firstError.
               k = Some key \<and> key \<noteq> [] \<and> firstOutcome = Inl firstError
               \<and> \<not> (q = HIGH \<and> isPermissionOrNotFoundError firstError) \<longrightarrow>
               generateMergedImage ai k a1 m1 a2 m2 p r q w =
                 (Inl (if status firstError = Some 403
                          \<or> message_includes firstError ''PERMISSION_DENIED''
                       then Error permissionDeniedMessage else firstError),
                  w\<lparr>calls := calls w @ [requestParameters a1 m1 a2 m2 p r (initialModel q)],
                    console := console w @ [ErrorLog ''Gemini API Error:'' firstError]\<rparr>))"
proof -
  have fo: "firstOutcome = fst (requestAndExtract ai a1 m1 a2 m2 p r (initialModel q) w)"
    by (simp add: assms requestAndExtract_pair)
  have trace: "calls (snd (generateMergedImage ai k a1 m1 a2 m2 p r q w)) =
           calls w @
           (if k = None \<or> k = Some [] then []
            else requestParameters a1 m1 a2 m2 p r (initialModel q) #
              (case firstOutcome of
                 Inl firstError \<Rightarrow>
                   if q = HIGH \<and> isPermissionOrNotFoundError firstError
                   then [requestParameters a1 m1 a2 m2 p r MODEL_STANDARD] else []
               | Inr uri \<Rightarrow> []))"
    unfolding fo by (rule generateMergedImage_calls)
  have target: "model (requestParameters a1 m1 a2 m2 p r MODEL_STANDARD) = MODEL_STANDARD"
    by (simp add: requestParameters_def)
  have hint: "imageSize (imageConfig (config (requestParameters a1 m1 a2 m2 p r MODEL_STANDARD)))
             = None"
    by (simp add: requestParameters_def models_distinct)
  have classified: "\<forall>firstError.
               isPermissionOrNotFoundError firstError =
                 (status firstError = Some 403 \<or> status firstError = Some 404
                  \<or> message_includes firstError ''PERMISSION_DENIED''
                  \<or> message_includes firstError ''403'')"
    by (simp add: isPermissionOrNotFoundError_def)
  have direct: "\<forall>key firstError.
               k = Some key \<and> key \<noteq> [] \<and> firstOutcome = Inl firstError
               \<and> \<not> (q = HIGH \<and> isPermissionOrNotFoundError firstError) \<longrightarrow>
               generateMergedImage ai k a1 m1 a2 m2 p r q w =
                 (Inl (if status firstError = Some 403
                          \<or> message_includes firstError ''PERMISSION_DENIED''
                       then Error permissionDeniedMessage else firstError),
                  w\<lparr>calls := calls w @ [requestParameters a1 m1 a2 m2 p r (initialModel q)],
                    console := console w @ [ErrorLog ''Gemini API Error:'' firstError]\<rparr>)"
    unfolding fo using generateMergedImage_no_fallback by blast
  show ?thesis
    using trace target hint classified direct by (intro conjI)
qed

text \<open>
  A high-tier run refused with 403 and then served, and one failing with status 500.
\<close>

theorem fallback_iff_high_and_first_error_access_denied_witness:
  "calls (snd (generateMergedImage
        (scripted [Inl (apiError 403 ''Forbidden''),
                   Inr (responseOf [inlinePart ''image/png'' (Some ''BBBB'')])])
        (Some ''key'') ''AAAA'' ''image/jpeg'' ''CCCC'' ''image/webp'' ''on a beach'' LANDSCAPE HIGH
        emptyWorld))
     = [requestParameters ''AAAA'' ''image/jpeg'' ''CCCC'' ''image/webp'' ''on a beach'' LANDSCAPE
          MODEL_HIGH_RES,
        requestParameters ''AAAA'' ''image/jpeg'' ''CCCC'' ''image/webp'' ''on a beach'' LANDSCAPE
          MODEL_STANDARD]
   \<and> generateMergedImage (scripted [Inl (apiError 500 ''Internal error'')])
        (Some ''key'') ''AAAA'' ''image/jpeg'' ''CCCC'' ''image/webp'' ''on a beach'' LANDSCAPE HIGH
        emptyWorld
     = (Inl (apiError 500 ''Internal error''),
        \<lparr>calls = [requestParameters ''AAAA'' ''image/jpeg'' ''CCCC'' ''image/webp''
                     ''on a beach'' LANDSCAPE MODEL_HIGH_RES],
         console = [ErrorLog ''Gemini API Error:'' (apiError 500 ''Internal error'')]\<rparr>)"
proof -
  have first: "Inl (apiError 403 ''Forbidden'') =
      (case scripted [Inl (apiError 403 ''Forbidden''),
                      Inr (responseOf [inlinePart ''image/png'' (Some ''BBBB'')])]
              (length (calls emptyWorld))
              (requestParameters ''AAAA'' ''image/jpeg'' ''CCCC'' ''image/webp'' ''on a beach''
                 LANDSCAPE (initialModel HIGH)) of
         Inl e \<Rightarrow> Inl e
       | Inr response \<Rightarrow> extractImageFromResponse response)"
    by (simp add: emptyWorld_def)
  have denied: "isPermissionOrNotFoundError (apiError 403 ''Forbidden'')"
    by (simp add: isPermissionOrNotFoundError_def apiError_def)
  have a: "calls (snd (generateMergedImage
        (scripted [Inl (apiError 403 ''Forbidden''),
                   Inr (responseOf [inlinePart ''image/png'' (Some ''BBBB'')])])
        (Some ''key'') ''AAAA'' ''image/jpeg'' ''CCCC'' ''image/webp'' ''on a beach'' LANDSCAPE HIGH
        emptyWorld))
     = [requestParameters ''AAAA'' ''image/jpeg'' ''CCCC'' ''image/webp'' ''on a beach'' LANDSCAPE
          MODEL_HIGH_RES,
        requestParameters ''AAAA'' ''image/jpeg'' ''CCCC'' ''image/webp'' ''on a beach'' LANDSCAPE
          MODEL_STANDARD]"
    using fallback_iff_high_and_first_error_access_denied
            [of "Inl (apiError 403 ''Forbidden'')"
                "scripted [Inl (apiError 403 ''Forbidden''),
                           Inr (responseOf [inlinePart ''image/png'' (Some ''BBBB'')])]"
                emptyWorld "''AAAA''" "''image/jpeg''" "''CCCC''" "''image/webp''"
                "''on a beach''" LANDSCAPE HIGH "Some ''key''", OF first, THEN conjunct1] denied
    by (simp add: emptyWorld_def initialModel_def)
  have second: "Inl (apiError 500 ''Internal error'') =
      (case scripted [Inl (apiError 500 ''Internal error'')]
              (length (calls emptyWorld))
              (requestParameters ''AAAA'' ''image/jpeg'' ''CCCC'' ''image/webp'' ''on a beach''
                 LANDSCAPE (initialModel HIGH)) of
         Inl e \<Rightarrow> Inl e
       | Inr response \<Rightarrow> extractImageFromResponse response)"
    by (simp add: emptyWorld_def)
  have other: "\<not> isPermissionOrNotFoundError (apiError 500 ''Internal error'')"
    by (simp add: isPermissionOrNotFoundError_def apiError_def message_includes_def)
  have plain: "\<not> (status (apiError 500 ''Internal error'') = Some 403
                  \<or> message_includes (apiError 500 ''Internal error'') ''PERMISSION_DENIED'')"
    by (simp add: apiError_def message_includes_def)
  have b: "generateMergedImage (scripted [Inl (apiError 500 ''Internal error'')])
        (Some ''key'') ''AAAA'' ''image/jpeg'' ''CCCC'' ''image/webp'' ''on a beach'' LANDSCAPE HIGH
        emptyWorld
     = (Inl (apiError 500 ''Internal error''),
        \<lparr>calls = [requestParameters ''AAAA'' ''image/jpeg'' ''CCCC'' ''image/webp''
                     ''on a beach'' LANDSCAPE MODEL_HIGH_RES],
         console = [ErrorLog ''Gemini API Error:'' (apiError 500 ''Internal error'')]\<rparr>)"
    using fallback_iff_high_and_first_error_access_denied
            [of "Inl (apiError 500 ''Internal error'')"
                "scripted [Inl (apiError 500 ''Internal error'')]"
                emptyWorld "''AAAA''" "''image/jpeg''" "''CCCC''" "''image/webp''"
                "''on a beach''" LANDSCAPE HIGH "Some ''key''", OF second, THEN conjunct2, THEN conjunct2, THEN conjunct2,
             THEN conjunct2, rule_format, of "''key''" "apiError 500 ''Internal error''"]
          other plain
    by (simp add: emptyWorld_def initialModel_def)
  show ?thesis
    using a b by (rule conjI)
qed

text \<open>
  Claim C2 as stated fails. On the high tier the first invocation succeeds and extraction
  fails with the model's refusal text; the text contains \<open>PERMISSION_DENIED\<close>, and a
  second invocation, of the standard model, is made.
\<close>

theorem refusal_text_with_marker_triggers_fallback:
  "scripted [Inr (responseOf [textPart ''Blocked: PERMISSION_DENIED by content policy'']),
             Inr (responseOf [textPart ''Still refused''])] 0
     (requestParameters ''AAAA'' ''image/jpeg'' ''CCCC'' ''image/webp'' ''on a beach'' SQUARE
        MODEL_HIGH_RES)
     = Inr (responseOf [textPart ''Blocked: PERMISSION_DENIED by content policy''])
   \<and> extractImageFromResponse
        (responseOf [textPart ''Blocked: PERMISSION_DENIED by content policy''])
     = Inl (Error ''Blocked: PERMISSION_DENIED by content policy'')
   \<and> length (calls (snd (generateMergedImage
        (scripted [Inr (responseOf [textPart ''Blocked: PERMISSION_DENIED by content policy'']),
                   Inr (responseOf [textPart ''Still refused''])])
        (Some ''key'') ''AAAA'' ''image/jpeg'' ''CCCC'' ''image/webp'' ''on a beach'' SQUARE HIGH
        emptyWorld))) = 2
   \<and> model (calls (snd (generateMergedImage
        (scripted [Inr (responseOf [textPart ''Blocked: PERMISSION_DENIED by content policy'']),
                   Inr (responseOf [textPart ''Still refused''])])
        (Some ''key'') ''AAAA'' ''image/jpeg'' ''CCCC'' ''image/webp'' ''on a beach'' SQUARE HIGH
        emptyWorld)) ! 1) = MODEL_STANDARD"
proof -
  have ex: "extractImageFromResponse
        (responseOf [textPart ''Blocked: PERMISSION_DENIED by content policy''])
     = Inl (Error ''Blocked: PERMISSION_DENIED by content policy'')"
    by (simp add: extractImageFromResponse_def responseOf_def textPart_def inlineImageData_def
        textFeedback_def leadingText_def)
  have cl: "isPermissionOrNotFoundError (Error ''Blocked: PERMISSION_DENIED by content policy'')"
    by (simp add: isPermissionOrNotFoundError_def message_includes_def Error_def)
  have tr: "calls (snd (generateMergedImage
        (scripted [Inr (responseOf [textPart ''Blocked: PERMISSION_DENIED by content policy'']),
                   Inr (responseOf [textPart ''Still refused''])])
        (Some ''key'') ''AAAA'' ''image/jpeg'' ''CCCC'' ''image/webp'' ''on a beach'' SQUARE HIGH
        emptyWorld)) =
      [requestParameters ''AAAA'' ''image/jpeg'' ''CCCC'' ''image/webp'' ''on a beach'' SQUARE
          MODEL_HIGH_RES,
       requestParameters ''AAAA'' ''image/jpeg'' ''CCCC'' ''image/webp'' ''on a beach'' SQUARE
          MODEL_STANDARD]"
    by (simp add: generateMergedImage_calls requestAndExtract_pair emptyWorld_def initialModel_def
        ex cl)
  show ?thesis
    unfolding tr ex by (simp add: requestParameters_def)
qed

text \<open>
  Claim C2, amended. On the high tier, when the first invocation succeeds and extraction
  fails with error \<open>e\<close>, a second invocation is made exactly when the message of \<open>e\<close>
  contains \<open>PERMISSION_DENIED\<close> or \<open>403\<close>. The no-image failure never triggers it: the
  call then ends in that error after one invocation.
\<close>

theorem extraction_failure_falls_back_iff_message_marked:
  assumes "key \<noteq> []"
    and "ai (length (calls w)) (requestParameters a1 m1 a2 m2 p r MODEL_HIGH_RES) = Inr response"
    and "extractImageFromResponse response = Inl e"
  shows "calls (snd (generateMergedImage ai (Some key) a1 m1 a2 m2 p r HIGH w)) =
           calls w @ requestParameters a1 m1 a2 m2 p r MODEL_HIGH_RES #
             (if message_includes e ''PERMISSION_DENIED'' \<or> message_includes e ''403''
              then [requestParameters a1 m1 a2 m2 p r MODEL_STANDARD] else [])
         \<and> (e = Error noImageMessage \<longrightarrow>
               generateMergedImage ai (Some key) a1 m1 a2 m2 p r HIGH w =
                 (Inl e, w\<lparr>calls := calls w @ [requestParameters a1 m1 a2 m2 p r MODEL_HIGH_RES],
                          console := console w @ [ErrorLog ''Gemini API Error:'' e]\<rparr>))"
proof -
  have fo: "fst (requestAndExtract ai a1 m1 a2 m2 p r (initialModel HIGH) w) = Inl e"
    using assms(2,3) by (simp add: requestAndExtract_pair initialModel_def)
  have cl: "isPermissionOrNotFoundError e =
              (message_includes e ''PERMISSION_DENIED'' \<or> message_includes e ''403'')"
    using assms(3) by (rule extract_error_classified)
  have tr: "calls (snd (generateMergedImage ai (Some key) a1 m1 a2 m2 p r HIGH w)) =
           calls w @ requestParameters a1 m1 a2 m2 p r MODEL_HIGH_RES #
             (if message_includes e ''PERMISSION_DENIED'' \<or> message_includes e ''403''
              then [requestParameters a1 m1 a2 m2 p r MODEL_STANDARD] else [])"
    using assms(1) by (simp add: generateMergedImage_calls fo cl) (simp add: initialModel_def)
  have ni: "generateMergedImage ai (Some key) a1 m1 a2 m2 p r HIGH w =
                 (Inl e, w\<lparr>calls := calls w @ [requestParameters a1 m1 a2 m2 p r MODEL_HIGH_RES],
                          console := console w @ [ErrorLog ''Gemini API Error:'' e]\<rparr>)"
    if "e = Error noImageMessage"
  proof -
    have no: "\<not> isPermissionOrNotFoundError e"
      unfolding that
      by (simp add: isPermissionOrNotFoundError_def message_includes_def Error_def)
    have plain: "\<not> (status e = Some 403 \<or> message_includes e ''PERMISSION_DENIED'')"
      using no by (simp add: isPermissionOrNotFoundError_def)
    show ?thesis
      using generateMergedImage_no_fallback [OF assms(1) fo] no plain
      by (simp add: initialModel_def)
  qed
  show ?thesis
    using tr ni by blast
qed

text \<open>
  A response without parts, and a refusal text without either marker.
\<close>

theorem extraction_failure_falls_back_iff_message_marked_witness:
  "generateMergedImage (scripted [Inr (responseOf [])])
        (Some ''key'') ''AAAA'' ''image/jpeg'' ''CCCC'' ''image/webp'' ''on a beach'' SQUARE HIGH
        emptyWorld
     = (Inl (Error ''No image generated. The model might have refused the request.''),
        \<lparr>calls = [requestParameters ''AAAA'' ''image/jpeg'' ''CCCC'' ''image/webp''
                     ''on a beach'' SQUARE MODEL_HIGH_RES],
         console = [ErrorLog ''Gemini API Error:''
                     (Error ''No image generated. The model might have refused the request.'')]\<rparr>)
   \<and> calls (snd (generateMergedImage (scripted [Inr (responseOf [textPart ''I cannot merge these.''])])
        (Some ''key'') ''AAAA'' ''image/jpeg'' ''CCCC'' ''image/webp'' ''on a beach'' SQUARE HIGH
        emptyWorld))
     = [requestParameters ''AAAA'' ''image/jpeg'' ''CCCC'' ''image/webp''
                     ''on a beach'' SQUARE MODEL_HIGH_RES]"
proof -
  have key: "''key'' \<noteq> []"
    by simp
  have inv1: "scripted [Inr (responseOf [])] (length (calls emptyWorld))
               (requestParameters ''AAAA'' ''image/jpeg'' ''CCCC'' ''image/webp'' ''on a beach''
                  SQUARE MODEL_HIGH_RES) = Inr (responseOf [])"
    by (simp add: emptyWorld_def)
  have ex1: "extractImageFromResponse (responseOf []) = Inl (Error noImageMessage)"
    by (simp add: extractImageFromResponse_def responseOf_def textFeedback_def leadingText_def)
  have a: "generateMergedImage (scripted [Inr (responseOf [])])
        (Some ''key'') ''AAAA'' ''image/jpeg'' ''CCCC'' ''image/webp'' ''on a beach'' SQUARE HIGH
        emptyWorld
     = (Inl (Error noImageMessage),
        \<lparr>calls = [requestParameters ''AAAA'' ''image/jpeg'' ''CCCC'' ''image/webp''
                     ''on a beach'' SQUARE MODEL_HIGH_RES],
         console = [ErrorLog ''Gemini API Error:'' (Error noImageMessage)]\<rparr>)"
    using extraction_failure_falls_back_iff_message_marked
            [of "''key''" "scripted [Inr (responseOf [])]" emptyWorld, OF key inv1 ex1,
             THEN conjunct2]
    by (simp add: emptyWorld_def)
  have inv2: "scripted [Inr (responseOf [textPart ''I cannot merge these.''])]
               (length (calls emptyWorld))
               (requestParameters ''AAAA'' ''image/jpeg'' ''CCCC'' ''image/webp'' ''on a beach''
                  SQUARE MODEL_HIGH_RES) = Inr (responseOf [textPart ''I cannot merge these.''])"
    by (simp add: emptyWorld_def)
  have ex2: "extractImageFromResponse (responseOf [textPart ''I cannot merge these.''])
               = Inl (Error ''I cannot merge these.'')"
    by (simp add: extractImageFromResponse_def responseOf_def textPart_def inlineImageData_def
        textFeedback_def leadingText_def)
  have unmarked: "\<not> (message_includes (Error ''I cannot merge these.'') ''PERMISSION_DENIED''
                     \<or> message_includes (Error ''I cannot merge these.'') ''403'')"
    by (simp add: message_includes_def Error_def)
  have b: "calls (snd (generateMergedImage
        (scripted [Inr (responseOf [textPart ''I cannot merge these.''])])
        (Some ''key'') ''AAAA'' ''image/jpeg'' ''CCCC'' ''image/webp'' ''on a beach'' SQUARE HIGH
        emptyWorld))
     = [requestParameters ''AAAA'' ''image/jpeg'' ''CCCC'' ''image/webp''
                     ''on a beach'' SQUARE MODEL_HIGH_RES]"
    using extraction_failure_falls_back_iff_message_marked
            [of "''key''" "scripted [Inr (responseOf [textPart ''I cannot merge these.''])]"
                emptyWorld, OF key inv2 ex2, THEN conjunct1]
          unmarked
    by (simp add: emptyWorld_def)
  show ?thesis
    using a b by (rule conjI)
qed

section \<open>The message of the terminal error\<close>

text \<open>
  Claim C8 as stated fails. On the standard tier an invocation error with status 404 is
  in the fallback's class, yet the call ends in that very error with its own message; so
  does an error without status whose message contains \<open>403\<close>.
\<close>

theorem not_found_error_keeps_its_message:
  "isPermissionOrNotFoundError (apiError 404 ''Model not found'')
   \<and> generateMergedImage (scripted [Inl (apiError 404 ''Model not found'')])
        (Some ''key'') ''AAAA'' ''image/jpeg'' ''CCCC'' ''image/webp'' ''on a beach'' SQUARE STANDARD
        emptyWorld
     = (Inl (apiError 404 ''Model not found''),
        \<lparr>calls = [requestParameters ''AAAA'' ''image/jpeg'' ''CCCC'' ''image/webp''
                     ''on a beach'' SQUARE MODEL_STANDARD],
         console = [ErrorLog ''Gemini API Error:'' (apiError 404 ''Model not found'')]\<rparr>)
   \<and> message (apiError 404 ''Model not found'') \<noteq> Some permissionDeniedMessage
   \<and> isPermissionOrNotFoundError \<lparr>name = ''ApiError'', status = None,
                                    message = Some ''Request failed with code 403''\<rparr>
   \<and> fst (generateMergedImage
            (scripted [Inl \<lparr>name = ''ApiError'', status = None,
                            message = Some ''Request failed with code 403''\<rparr>])
        (Some ''key'') ''AAAA'' ''image/jpeg'' ''CCCC'' ''image/webp'' ''on a beach'' SQUARE STANDARD
        emptyWorld)
     = Inl \<lparr>name = ''ApiError'', status = None, message = Some ''Request failed with code 403''\<rparr>"
  by (simp add: generateMergedImage_def innerTry_def requestAndExtract_pair emptyWorld_def
      initialModel_def isPermissionOrNotFoundError_def message_includes_def apiError_def Let_def)

text \<open>
  Claim C8, amended. Take the terminal error of a call: on the standard tier the error of
  the first attempt, on the high tier the error of the fallback attempt, whichever error of
  the first attempt (the invocation's, or the one extraction threw) set the fallback off. An
  attempt's error is the invocation's error or else the one extraction throws, so every
  terminal invocation-level error is covered. When that error has status 403 or a message
  containing \<open>PERMISSION_DENIED\<close>, the call ends in the fixed permission message.
\<close>

theorem permission_denied_error_gets_fixed_message:
  assumes "key \<noteq> []"
    and "(q = STANDARD
          \<and> (case ai (length (calls w)) (requestParameters a1 m1 a2 m2 p r MODEL_STANDARD) of
                Inl x \<Rightarrow> Inl x
              | Inr response \<Rightarrow> extractImageFromResponse response) = Inl e)
         \<or> (q = HIGH
          \<and> (case ai (length (calls w)) (requestParameters a1 m1 a2 m2 p r MODEL_HIGH_RES) of
                Inl x \<Rightarrow> Inl x
              | Inr response \<Rightarrow> extractImageFromResponse response) = Inl firstError
          \<and> isPermissionOrNotFoundError firstError
          \<and> (case ai (Suc (length (calls w)))
                      (requestParameters a1 m1 a2 m2 p r MODEL_STANDARD) of
                Inl x \<Rightarrow> Inl x
              | Inr response \<Rightarrow> extractImageFromResponse response) = Inl e)"
    and "status e = Some 403 \<or> message_includes e ''PERMISSION_DENIED''"
  shows "fst (generateMergedImage ai (Some key) a1 m1 a2 m2 p r q w) =
           Inl (Error permissionDeniedMessage)"
proof -
  have "fst (innerTry ai a1 m1 a2 m2 p r q w) = Inl e"
    using assms(2)
  proof (elim disjE conjE)
    assume q: "q = STANDARD"
      and first: "(case ai (length (calls w)) (requestParameters a1 m1 a2 m2 p r MODEL_STANDARD) of
                Inl x \<Rightarrow> Inl x
              | Inr response \<Rightarrow> extractImageFromResponse response) = Inl e"
    have "fst (requestAndExtract ai a1 m1 a2 m2 p r (initialModel q) w) = Inl e"
      using q first by (simp add: requestAndExtract_pair initialModel_def)
    then show ?thesis
      using q by (simp add: innerTry_no_fallback)
  next
    assume q: "q = HIGH"
      and first: "(case ai (length (calls w)) (requestParameters a1 m1 a2 m2 p r MODEL_HIGH_RES) of
                Inl x \<Rightarrow> Inl x
              | Inr response \<Rightarrow> extractImageFromResponse response) = Inl firstError"
      and cl: "isPermissionOrNotFoundError firstError"
      and second: "(case ai (Suc (length (calls w)))
                      (requestParameters a1 m1 a2 m2 p r MODEL_STANDARD) of
                Inl x \<Rightarrow> Inl x
              | Inr response \<Rightarrow> extractImageFromResponse response) = Inl e"
    have "fst (requestAndExtract ai a1 m1 a2 m2 p r MODEL_HIGH_RES w) = Inl firstError"
      using first by (simp add: requestAndExtract_pair)
    then show ?thesis
      unfolding q using cl second by (simp add: innerTry_fallback)
  qed
  then show ?thesis
    using assms(3) by (simp add: generateMergedImage_terminal_error [OF assms(1)])
qed

text \<open>
  A 403 on the standard tier; a fallback, set off by a 404, that ends in
  \<open>PERMISSION_DENIED\<close>; and a fallback, set off by the refusal text \<open>Error 403\<close>, whose
  invocation is refused with status 403.
\<close>

theorem permission_denied_error_gets_fixed_message_witness:
  "fst (generateMergedImage (scripted [Inl (apiError 403 ''Forbidden'')])
        (Some ''key'') ''AAAA'' ''image/jpeg'' ''CCCC'' ''image/webp'' ''on a beach'' SQUARE STANDARD
        emptyWorld)
     = Inl (Error ''Permission denied. The API key does not have access to the generative AI models. Please check that the API key is valid and the API is enabled in your Google Cloud project.'')
   \<and> fst (generateMergedImage
        (scripted [Inl (apiError 404 ''Model not found''),
                   Inl (apiError 400 ''PERMISSION_DENIED: API not enabled'')])
        (Some ''key'') ''AAAA'' ''image/jpeg'' ''CCCC'' ''image/webp'' ''on a beach'' SQUARE HIGH
        emptyWorld)
     = Inl (Error ''Permission denied. The API key does not have access to the generative AI models. Please check that the API key is valid and the API is enabled in your Google Cloud project.'')
   \<and> fst (generateMergedImage
        (scripted [Inr (responseOf [textPart ''Error 403'']), Inl (apiError 403 ''Forbidden'')])
        (Some ''key'') ''AAAA'' ''image/jpeg'' ''CCCC'' ''image/webp'' ''on a beach'' SQUARE HIGH
        emptyWorld)
     = Inl (Error ''Permission denied. The API key does not have access to the generative AI models. Please check that the API key is valid and the API is enabled in your Google Cloud project.'')"
proof -
  have key: "''key'' \<noteq> []"
    by simp
  have n: "length (calls emptyWorld) = 0"
    by (simp add: emptyWorld_def)
  have ex: "extractImageFromResponse (responseOf [textPart ''Error 403''])
              = Inl (Error ''Error 403'')"
    by (simp add: extractImageFromResponse_def responseOf_def textPart_def inlineImageData_def
        textFeedback_def leadingText_def)
  have s1: "(STANDARD = STANDARD
          \<and> (case scripted [Inl (apiError 403 ''Forbidden'')] (length (calls emptyWorld))
               (requestParameters ''AAAA'' ''image/jpeg'' ''CCCC'' ''image/webp'' ''on a beach''
                  SQUARE MODEL_STANDARD) of
                Inl x \<Rightarrow> Inl x
              | Inr response \<Rightarrow> extractImageFromResponse response)
              = Inl (apiError 403 ''Forbidden''))
         \<or> (STANDARD = HIGH
          \<and> (case scripted [Inl (apiError 403 ''Forbidden'')] (length (calls emptyWorld))
               (requestParameters ''AAAA'' ''image/jpeg'' ''CCCC'' ''image/webp'' ''on a beach''
                  SQUARE MODEL_HIGH_RES) of
                Inl x \<Rightarrow> Inl x
              | Inr response \<Rightarrow> extractImageFromResponse response)
              = Inl (apiError 403 ''Forbidden'')
          \<and> isPermissionOrNotFoundError (apiError 403 ''Forbidden'')
          \<and> (case scripted [Inl (apiError 403 ''Forbidden'')] (Suc (length (calls emptyWorld)))
               (requestParameters ''AAAA'' ''image/jpeg'' ''CCCC'' ''image/webp'' ''on a beach''
                  SQUARE MODEL_STANDARD) of
                Inl x \<Rightarrow> Inl x
              | Inr response \<Rightarrow> extractImageFromResponse response)
              = Inl (apiError 403 ''Forbidden''))"
    by (simp add: n)
  have t1: "status (apiError 403 ''Forbidden'') = Some 403
            \<or> message_includes (apiError 403 ''Forbidden'') ''PERMISSION_DENIED''"
    by (simp add: apiError_def)
  have s2: "(HIGH = STANDARD
          \<and> (case scripted [Inl (apiError 404 ''Model not found''),
                       Inl (apiError 400 ''PERMISSION_DENIED: API not enabled'')]
               (length (calls emptyWorld))
               (requestParameters ''AAAA'' ''image/jpeg'' ''CCCC'' ''image/webp'' ''on a beach''
                  SQUARE MODEL_STANDARD) of
                Inl x \<Rightarrow> Inl x
              | Inr response \<Rightarrow> extractImageFromResponse response)
              = Inl (apiError 400 ''PERMISSION_DENIED: API not enabled''))
         \<or> (HIGH = HIGH
          \<and> (case scripted [Inl (apiError 404 ''Model not found''),
                       Inl (apiError 400 ''PERMISSION_DENIED: API not enabled'')]
               (length (calls emptyWorld))
               (requestParameters ''AAAA'' ''image/jpeg'' ''CCCC'' ''image/webp'' ''on a beach''
                  SQUARE MODEL_HIGH_RES) of
                Inl x \<Rightarrow> Inl x
              | Inr response \<Rightarrow> extractImageFromResponse response)
              = Inl (apiError 404 ''Model not found'')
          \<and> isPermissionOrNotFoundError (apiError 404 ''Model not found'')
          \<and> (case scripted [Inl (apiError 404 ''Model not found''),
                       Inl (apiError 400 ''PERMISSION_DENIED: API not enabled'')]
               (Suc (length (calls emptyWorld)))
               (requestParameters ''AAAA'' ''image/jpeg'' ''CCCC'' ''image/webp'' ''on a beach''
                  SQUARE MODEL_STANDARD) of
                Inl x \<Rightarrow> Inl x
              | Inr response \<Rightarrow> extractImageFromResponse response)
              = Inl (apiError 400 ''PERMISSION_DENIED: API not enabled''))"
    by (simp add: n isPermissionOrNotFoundError_def apiError_def)
  have t2: "status (apiError 400 ''PERMISSION_DENIED: API not enabled'') = Some 403
            \<or> message_includes (apiError 400 ''PERMISSION_DENIED: API not enabled'')
                 ''PERMISSION_DENIED''"
    by (simp add: apiError_def message_includes_def)
  have cl3: "isPermissionOrNotFoundError (Error ''Error 403'')"
    by (simp add: isPermissionOrNotFoundError_def message_includes_def Error_def)
  have s3: "(HIGH = STANDARD
          \<and> (case scripted [Inr (responseOf [textPart ''Error 403'']),
                             Inl (apiError 403 ''Forbidden'')]
               (length (calls emptyWorld))
               (requestParameters ''AAAA'' ''image/jpeg'' ''CCCC'' ''image/webp'' ''on a beach''
                  SQUARE MODEL_STANDARD) of
                Inl x \<Rightarrow> Inl x
              | Inr response \<Rightarrow> extractImageFromResponse response)
              = Inl (apiError 403 ''Forbidden''))
         \<or> (HIGH = HIGH
          \<and> (case scripted [Inr (responseOf [textPart ''Error 403'']),
                             Inl (apiError 403 ''Forbidden'')]
               (length (calls emptyWorld))
               (requestParameters ''AAAA'' ''image/jpeg'' ''CCCC'' ''image/webp'' ''on a beach''
                  SQUARE MODEL_HIGH_RES) of
                Inl x \<Rightarrow> Inl x
              | Inr response \<Rightarrow> extractImageFromResponse response)
              = Inl (Error ''Error 403'')
          \<and> isPermissionOrNotFoundError (Error ''Error 403'')
          \<and> (case scripted [Inr (responseOf [textPart ''Error 403'']),
                             Inl (apiError 403 ''Forbidden'')]
               (Suc (length (calls emptyWorld)))
               (requestParameters ''AAAA'' ''image/jpeg'' ''CCCC'' ''image/webp'' ''on a beach''
                  SQUARE MODEL_STANDARD) of
                Inl x \<Rightarrow> Inl x
              | Inr response \<Rightarrow> extractImageFromResponse response)
              = Inl (apiError 403 ''Forbidden''))"
    by (simp add: n ex cl3)
  show ?thesis
    using permission_denied_error_gets_fixed_message
            [of "''key''" STANDARD "scripted [Inl (apiError 403 ''Forbidden'')]" emptyWorld,
             OF key s1 t1]
          permission_denied_error_gets_fixed_message
            [of "''key''" HIGH
                "scripted [Inl (apiError 404 ''Model not found''),
                           Inl (apiError 400 ''PERMISSION_DENIED: API not enabled'')]"
                emptyWorld, OF key s2 t2]
          permission_denied_error_gets_fixed_message
            [of "''key''" HIGH
                "scripted [Inr (responseOf [textPart ''Error 403'']),
                           Inl (apiError 403 ''Forbidden'')]"
                emptyWorld, OF key s3 t1]
    by (intro conjI)
qed

text \<open>
  Claim C9 as stated fails. On the standard tier the response has no inline data and a
  leading text that contains \<open>PERMISSION_DENIED\<close>: extraction throws that text, and the
  outer handler replaces it by the fixed permission message.
\<close>

theorem refusal_text_replaced_by_permission_message:
  "extractImageFromResponse
        (responseOf [textPart ''PERMISSION_DENIED: I am not allowed to edit faces.''])
     = Inl (Error ''PERMISSION_DENIED: I am not allowed to edit faces.'')
   \<and> fst (generateMergedImage
        (scripted [Inr (responseOf [textPart ''PERMISSION_DENIED: I am not allowed to edit faces.''])])
        (Some ''key'') ''AAAA'' ''image/jpeg'' ''CCCC'' ''image/webp'' ''on a beach'' SQUARE STANDARD
        emptyWorld)
     = Inl (Error permissionDeniedMessage)
   \<and> Error permissionDeniedMessage
     \<noteq> Error ''PERMISSION_DENIED: I am not allowed to edit faces.''"
proof -
  have ex: "extractImageFromResponse
        (responseOf [textPart ''PERMISSION_DENIED: I am not allowed to edit faces.''])
     = Inl (Error ''PERMISSION_DENIED: I am not allowed to edit faces.'')"
    by (simp add: extractImageFromResponse_def responseOf_def textPart_def inlineImageData_def
        textFeedback_def leadingText_def)
  have run: "fst (generateMergedImage
        (scripted [Inr (responseOf [textPart ''PERMISSION_DENIED: I am not allowed to edit faces.''])])
        (Some ''key'') ''AAAA'' ''image/jpeg'' ''CCCC'' ''image/webp'' ''on a beach'' SQUARE STANDARD
        emptyWorld)
     = Inl (Error permissionDeniedMessage)"
    by (simp add: generateMergedImage_def innerTry_def requestAndExtract_pair emptyWorld_def
        initialModel_def ex Let_def)
       (simp add: Error_def message_includes_def)
  have ne: "Error permissionDeniedMessage
     \<noteq> Error ''PERMISSION_DENIED: I am not allowed to edit faces.''"
    by (simp add: Error_def)
  show ?thesis
    using ex run ne by (intro conjI)
qed

text \<open>
  Claim C9, amended. When the first candidate holds no non-empty inline data and its first
  part has non-empty text, extraction fails with exactly that text as message, whatever the
  text. When the response answers the first invocation, the call ends in that same error,
  after one invocation, provided the text does not contain \<open>PERMISSION_DENIED\<close> and, on
  the high tier, does not contain \<open>403\<close>. When the response answers the fallback's
  invocation, the call ends in that same error provided the text does not contain
  \<open>PERMISSION_DENIED\<close>; a \<open>403\<close> in the text plays no role there.
\<close>

theorem refusal_text_surfaced_verbatim:
  assumes "candidates response = Some (c # cs)"
    and "content c = Some ct"
    and "parts ct = Some (first # rest)"
    and "\<forall>part \<in> set (first # rest). inlineImageData part = None"
    and "text' first = Some t"
    and "t \<noteq> []"
  shows "extractImageFromResponse response = Inl (Error t)
         \<and> (\<forall>key. key \<noteq> []
               \<and> ai (length (calls w)) (requestParameters a1 m1 a2 m2 p r (initialModel q))
                   = Inr response
               \<and> \<not> str_includes t ''PERMISSION_DENIED''
               \<and> (q = STANDARD \<or> \<not> str_includes t ''403'') \<longrightarrow>
               generateMergedImage ai (Some key) a1 m1 a2 m2 p r q w =
                 (Inl (Error t),
                  w\<lparr>calls := calls w @ [requestParameters a1 m1 a2 m2 p r (initialModel q)],
                    console := console w @ [ErrorLog ''Gemini API Error:'' (Error t)]\<rparr>))
         \<and> (\<forall>key firstError. key \<noteq> []
               \<and> (case ai (length (calls w))
                           (requestParameters a1 m1 a2 m2 p r MODEL_HIGH_RES) of
                     Inl x \<Rightarrow> Inl x
                   | Inr firstResponse \<Rightarrow> extractImageFromResponse firstResponse)
                   = Inl firstError
               \<and> isPermissionOrNotFoundError firstError
               \<and> ai (Suc (length (calls w))) (requestParameters a1 m1 a2 m2 p r MODEL_STANDARD)
                   = Inr response
               \<and> \<not> str_includes t ''PERMISSION_DENIED'' \<longrightarrow>
               fst (generateMergedImage ai (Some key) a1 m1 a2 m2 p r HIGH w) = Inl (Error t)
               \<and> calls (snd (generateMergedImage ai (Some key) a1 m1 a2 m2 p r HIGH w)) =
                   calls w @ [requestParameters a1 m1 a2 m2 p r MODEL_HIGH_RES,
                              requestParameters a1 m1 a2 m2 p r MODEL_STANDARD])"
proof -
  have "scanParts (first # rest) = None"
    using assms(4) by (simp only: scanParts_None_iff)
  moreover have "leadingText response = Some t"
    using assms(1-3,5) by (simp add: leadingText_def)
  ultimately have ex: "extractImageFromResponse response = Inl (Error t)"
    using extract_first_candidate [OF assms(1-3)] assms(6) by (simp add: textFeedback_def)
  have plain: "\<not> (status (Error t) = Some 403 \<or> message_includes (Error t) ''PERMISSION_DENIED'')"
    if "\<not> str_includes t ''PERMISSION_DENIED''"
    using that by (simp add: message_includes_def Error_def)
  have run: "generateMergedImage ai (Some key) a1 m1 a2 m2 p r q w =
                 (Inl (Error t),
                  w\<lparr>calls := calls w @ [requestParameters a1 m1 a2 m2 p r (initialModel q)],
                    console := console w @ [ErrorLog ''Gemini API Error:'' (Error t)]\<rparr>)"
    if key: "key \<noteq> []"
      and inv: "ai (length (calls w)) (requestParameters a1 m1 a2 m2 p r (initialModel q))
                   = Inr response"
      and pd: "\<not> str_includes t ''PERMISSION_DENIED''"
      and nf: "q = STANDARD \<or> \<not> str_includes t ''403''"
    for key
  proof -
    have fo: "fst (requestAndExtract ai a1 m1 a2 m2 p r (initialModel q) w) = Inl (Error t)"
      using inv ex by (simp add: requestAndExtract_pair)
    have no: "\<not> (q = HIGH \<and> isPermissionOrNotFoundError (Error t))"
      using pd nf by (auto simp add: isPermissionOrNotFoundError_def message_includes_def Error_def)
    show ?thesis
      using generateMergedImage_no_fallback [OF key fo no] plain [OF pd] by simp
  qed
  have after: "fst (generateMergedImage ai (Some key) a1 m1 a2 m2 p r HIGH w) = Inl (Error t)
               \<and> calls (snd (generateMergedImage ai (Some key) a1 m1 a2 m2 p r HIGH w)) =
                   calls w @ [requestParameters a1 m1 a2 m2 p r MODEL_HIGH_RES,
                              requestParameters a1 m1 a2 m2 p r MODEL_STANDARD]"
    if key: "key \<noteq> []"
      and first: "(case ai (length (calls w))
                           (requestParameters a1 m1 a2 m2 p r MODEL_HIGH_RES) of
                     Inl x \<Rightarrow> Inl x
                   | Inr firstResponse \<Rightarrow> extractImageFromResponse firstResponse)
                   = Inl firstError"
      and cl: "isPermissionOrNotFoundError firstError"
      and inv: "ai (Suc (length (calls w))) (requestParameters a1 m1 a2 m2 p r MODEL_STANDARD)
                   = Inr response"
      and pd: "\<not> str_includes t ''PERMISSION_DENIED''"
    for key firstError
  proof -
    have fo: "fst (requestAndExtract ai a1 m1 a2 m2 p r MODEL_HIGH_RES w) = Inl firstError"
      using first by (simp add: requestAndExtract_pair)
    have "fst (innerTry ai a1 m1 a2 m2 p r HIGH w) = Inl (Error t)"
      using innerTry_fallback [OF fo cl] inv ex by simp
    then have res: "fst (generateMergedImage ai (Some key) a1 m1 a2 m2 p r HIGH w) = Inl (Error t)"
      using generateMergedImage_terminal_error [OF key] plain [OF pd] by simp
    have fo': "fst (requestAndExtract ai a1 m1 a2 m2 p r (initialModel HIGH) w) = Inl firstError"
      using fo by (simp add: initialModel_def)
    have "calls (snd (generateMergedImage ai (Some key) a1 m1 a2 m2 p r HIGH w)) =
                   calls w @ [requestParameters a1 m1 a2 m2 p r MODEL_HIGH_RES,
                              requestParameters a1 m1 a2 m2 p r MODEL_STANDARD]"
      using key cl by (simp add: generateMergedImage_calls fo') (simp add: initialModel_def)
    with res show ?thesis
      by (rule conjI)
  qed
  show ?thesis
    using ex run after by blast
qed

text \<open>
  A refusal text that contains \<open>403\<close>: as the answer on the standard tier, and as the
  answer to the fallback after a 403 on the high tier.
\<close>

theorem refusal_text_surfaced_verbatim_witness:
  "extractImageFromResponse (responseOf [textPart ''Error 403: I cannot merge these.''])
     = Inl (Error ''Error 403: I cannot merge these.'')
   \<and> generateMergedImage
        (scripted [Inr (responseOf [textPart ''Error 403: I cannot merge these.''])])
        (Some ''key'') ''AAAA'' ''image/jpeg'' ''CCCC'' ''image/webp'' ''on a beach'' SQUARE STANDARD
        emptyWorld
     = (Inl (Error ''Error 403: I cannot merge these.''),
        \<lparr>calls = [requestParameters ''AAAA'' ''image/jpeg'' ''CCCC'' ''image/webp''
                     ''on a beach'' SQUARE MODEL_STANDARD],
         console = [ErrorLog ''Gemini API Error:'' (Error ''Error 403: I cannot merge these.'')]\<rparr>)
   \<and> fst (generateMergedImage
        (scripted [Inl (apiError 403 ''Forbidden''),
                   Inr (responseOf [textPart ''Error 403: I cannot merge these.''])])
        (Some ''key'') ''AAAA'' ''image/jpeg'' ''CCCC'' ''image/webp'' ''on a beach'' SQUARE HIGH
        emptyWorld)
     = Inl (Error ''Error 403: I cannot merge these.'')
   \<and> calls (snd (generateMergedImage
        (scripted [Inl (apiError 403 ''Forbidden''),
                   Inr (responseOf [textPart ''Error 403: I cannot merge these.''])])
        (Some ''key'') ''AAAA'' ''image/jpeg'' ''CCCC'' ''image/webp'' ''on a beach'' SQUARE HIGH
        emptyWorld))
     = [requestParameters ''AAAA'' ''image/jpeg'' ''CCCC'' ''image/webp'' ''on a beach'' SQUARE
          MODEL_HIGH_RES,
        requestParameters ''AAAA'' ''image/jpeg'' ''CCCC'' ''image/webp'' ''on a beach'' SQUARE
          MODEL_STANDARD]"
proof -
  have h1: "candidates (responseOf [textPart ''Error 403: I cannot merge these.'']) =
              Some (\<lparr>content = Some \<lparr>parts = Some [textPart ''Error 403: I cannot merge these.'']\<rparr>\<rparr>
                    # [])"
    by (simp add: responseOf_def)
  have h2: "content \<lparr>content = Some \<lparr>parts = Some [textPart ''Error 403: I cannot merge these.'']\<rparr>\<rparr>
              = Some \<lparr>parts = Some [textPart ''Error 403: I cannot merge these.'']\<rparr>"
    by simp
  have h3: "parts \<lparr>parts = Some [textPart ''Error 403: I cannot merge these.'']\<rparr>
              = Some (textPart ''Error 403: I cannot merge these.'' # [])"
    by simp
  have h4: "\<forall>part \<in> set (textPart ''Error 403: I cannot merge these.'' # []).
              inlineImageData part = None"
    by (simp add: textPart_def inlineImageData_def)
  have h5: "text' (textPart ''Error 403: I cannot merge these.'')
              = Some ''Error 403: I cannot merge these.''"
    by (simp add: textPart_def)
  have h6: "''Error 403: I cannot merge these.'' \<noteq> []"
    by simp
  have n: "length (calls emptyWorld) = 0"
    by (simp add: emptyWorld_def)
  have pd: "\<not> str_includes ''Error 403: I cannot merge these.'' ''PERMISSION_DENIED''"
    by simp
  note direct = refusal_text_surfaced_verbatim
      [of "responseOf [textPart ''Error 403: I cannot merge these.'']" _ _ _ _ _ _
          "scripted [Inr (responseOf [textPart ''Error 403: I cannot merge these.''])]"
          emptyWorld
          "''AAAA''" "''image/jpeg''" "''CCCC''" "''image/webp''" "''on a beach''" SQUARE STANDARD,
       OF h1 h2 h3 h4 h5 h6]
  note fallback = refusal_text_surfaced_verbatim
      [of "responseOf [textPart ''Error 403: I cannot merge these.'']" _ _ _ _ _ _
          "scripted [Inl (apiError 403 ''Forbidden''),
                     Inr (responseOf [textPart ''Error 403: I cannot merge these.''])]"
          emptyWorld
          "''AAAA''" "''image/jpeg''" "''CCCC''" "''image/webp''" "''on a beach''" SQUARE HIGH,
       OF h1 h2 h3 h4 h5 h6]
  have a: "extractImageFromResponse (responseOf [textPart ''Error 403: I cannot merge these.''])
     = Inl (Error ''Error 403: I cannot merge these.'')"
    by (rule direct [THEN conjunct1])
  have b: "generateMergedImage
        (scripted [Inr (responseOf [textPart ''Error 403: I cannot merge these.''])])
        (Some ''key'') ''AAAA'' ''image/jpeg'' ''CCCC'' ''image/webp'' ''on a beach'' SQUARE STANDARD
        emptyWorld
     = (Inl (Error ''Error 403: I cannot merge these.''),
        \<lparr>calls = [requestParameters ''AAAA'' ''image/jpeg'' ''CCCC'' ''image/webp''
                     ''on a beach'' SQUARE MODEL_STANDARD],
         console = [ErrorLog ''Gemini API Error:'' (Error ''Error 403: I cannot merge these.'')]\<rparr>)"
    using direct [THEN conjunct2, THEN conjunct1, rule_format, of "''key''"] pd
    by (simp add: emptyWorld_def initialModel_def)
  have cl: "isPermissionOrNotFoundError (apiError 403 ''Forbidden'')"
    by (simp add: isPermissionOrNotFoundError_def apiError_def)
  have c: "fst (generateMergedImage
        (scripted [Inl (apiError 403 ''Forbidden''),
                   Inr (responseOf [textPart ''Error 403: I cannot merge these.''])])
        (Some ''key'') ''AAAA'' ''image/jpeg'' ''CCCC'' ''image/webp'' ''on a beach'' SQUARE HIGH
        emptyWorld)
     = Inl (Error ''Error 403: I cannot merge these.'')
   \<and> calls (snd (generateMergedImage
        (scripted [Inl (apiError 403 ''Forbidden''),
                   Inr (responseOf [textPart ''Error 403: I cannot merge these.''])])
        (Some ''key'') ''AAAA'' ''image/jpeg'' ''CCCC'' ''image/webp'' ''on a beach'' SQUARE HIGH
        emptyWorld))
     = [requestParameters ''AAAA'' ''image/jpeg'' ''CCCC'' ''image/webp'' ''on a beach'' SQUARE
          MODEL_HIGH_RES,
        requestParameters ''AAAA'' ''image/jpeg'' ''CCCC'' ''image/webp'' ''on a beach'' SQUARE
          MODEL_STANDARD]"
    using fallback [THEN conjunct2, THEN conjunct2, rule_format,
                    of "''key''" "apiError 403 ''Forbidden''"] pd cl
    by (simp add: n) (simp add: emptyWorld_def)
  show ?thesis
    using a b c by (intro conjI) simp_all
qed

end
